theory Spec2Isabelle
  imports Complex_Main
begin

section \<open>Python values used by \<^verbatim>\<open>simon.py\<close>\<close>

text \<open>
  A Python \<^verbatim>\<open>str\<close> is a sequence of Unicode code points and \<^verbatim>\<open>len\<close>,
  \<^verbatim>\<open>ljust\<close> and slicing count code points. The source writes the character
  U+2295 into its equations, which does not fit a byte, so a string is modelled as the
  list of its code points and \<open>S\<close> turns an ASCII literal into such a list.
\<close>

type_synonym str = "nat list"

definition S :: "string \<Rightarrow> str" where
  "S s = map of_char s"

definition chr0 :: nat where
  "chr0 = 48"

definition chr1 :: nat where
  "chr1 = 49"

text \<open>\<^verbatim>\<open>s.ljust(width, fill)\<close>: \<open>s\<close> itself when \<open>width \<le> len(s)\<close>.\<close>

definition ljust :: "str \<Rightarrow> int \<Rightarrow> nat \<Rightarrow> str" where
  "ljust s width fill = s @ replicate (nat (width - int (length s))) fill"

text \<open>\<^verbatim>\<open>s[:n]\<close>: a negative bound counts from the end of the string.\<close>

definition slice_to :: "str \<Rightarrow> int \<Rightarrow> str" where
  "slice_to s n = (if 0 \<le> n then take (nat n) s else take (nat (int (length s) + n)) s)"

text \<open>\<^verbatim>\<open>range(n)\<close> for a Python integer \<open>n\<close>: empty when \<open>n \<le> 0\<close>.\<close>

definition py_range :: "int \<Rightarrow> int list" where
  "py_range n = [0..n - 1]"

text \<open>\<^verbatim>\<open>str(j)\<close> for a non-negative integer: its decimal digits.\<close>

fun str_of_nat :: "nat \<Rightarrow> str" where
  "str_of_nat n = (if n < 10 then [48 + n] else str_of_nat (n div 10) @ [48 + n mod 10])"

text \<open>\<^verbatim>\<open>sep.join(parts)\<close>.\<close>

fun join :: "str \<Rightarrow> str list \<Rightarrow> str" where
  "join sep [] = []"
| "join sep [p] = p"
| "join sep (p # q # ps) = p @ sep @ join sep (q # ps)"

section \<open>Exceptions\<close>

text \<open>
  \<open>ValueError\<close> and \<open>HTTPException\<close> are raised by the source itself;
  \<open>CircuitError\<close> stands for the exceptions of the circuit library,
  \<open>BackendError\<close> for those of the simulator and \<open>NumpyError\<close> for those of
  the array library.
\<close>

datatype exn =
    ValueError str
  | HTTPException int str
  | CircuitError str
  | BackendError str
  | NumpyError str

section \<open>Circuits\<close>

text \<open>
  An instruction of a circuit: the operation's name and the qubit and classical bit
  indices it acts on. A \<^verbatim>\<open>QuantumCircuit\<close> object is a mutable record; the objects
  live in a store and a reference is an index into it, so that every gate a function
  adds to any circuit is visible in the store it returns.
\<close>

datatype instruction = Instruction (op_name: str) (qubits: "int list") (clbits: "int list")

definition h_gate :: "int \<Rightarrow> instruction" where
  "h_gate q = Instruction (S ''h'') [q] []"

definition cx_gate :: "int \<Rightarrow> int \<Rightarrow> instruction" where
  "cx_gate c t = Instruction (S ''cx'') [c, t] []"

definition measure_op :: "int \<Rightarrow> int \<Rightarrow> instruction" where
  "measure_op q c = Instruction (S ''measure'') [q] [c]"

record circuit =
  num_qubits :: int
  num_clbits :: int
  data :: "instruction list"

type_synonym ref = nat

type_synonym store = "circuit list"

text \<open>
  \<^verbatim>\<open>QuantumCircuit(...)\<close> over \<open>nq\<close> qubits and \<open>nc\<close> classical bits allocates an
  empty circuit. The library refuses a register of negative size.
\<close>

definition QuantumCircuit :: "int \<Rightarrow> int \<Rightarrow> store \<Rightarrow> (exn + ref) \<times> store" where
  "QuantumCircuit nq nc st =
     (if nq < 0 \<or> nc < 0 then (Inl (CircuitError (S ''Register size must be non-negative'')), st)
      else (Inr (length st), st @ [\<lparr>num_qubits = nq, num_clbits = nc, data = []\<rparr>]))"

definition append_instruction :: "ref \<Rightarrow> instruction \<Rightarrow> store \<Rightarrow> store" where
  "append_instruction r ins st = st[r := (st ! r)\<lparr>data := data (st ! r) @ [ins]\<rparr>]"

text \<open>\<^verbatim>\<open>circ.cx(c, t)\<close>.\<close>

definition cx :: "ref \<Rightarrow> int \<Rightarrow> int \<Rightarrow> store \<Rightarrow> store" where
  "cx r c t st = append_instruction r (cx_gate c t) st"

text \<open>
  \<^verbatim>\<open>circ.h(range(n))\<close>: one Hadamard per qubit of the range. The library refuses an
  empty qubit argument.
\<close>

definition h_range :: "ref \<Rightarrow> int \<Rightarrow> store \<Rightarrow> (exn + unit) \<times> store" where
  "h_range r n st =
     (if n \<le> 0 then (Inl (CircuitError (S ''One or more of the arguments are empty'')), st)
      else (Inr (), fold (\<lambda>q. append_instruction r (h_gate q)) (py_range n) st))"

text \<open>\<^verbatim>\<open>circ.measure(range(n), range(n))\<close>: qubit \<open>i\<close> into classical bit \<open>i\<close>.\<close>

definition measure_range :: "ref \<Rightarrow> int \<Rightarrow> store \<Rightarrow> (exn + unit) \<times> store" where
  "measure_range r n st =
     (if n \<le> 0 then (Inl (CircuitError (S ''One or more of the arguments are empty'')), st)
      else (Inr (), fold (\<lambda>q. append_instruction r (measure_op q q)) (py_range n) st))"

text \<open>\<^verbatim>\<open>circ.compose(other, inplace=True)\<close> on circuits of the same width.\<close>

definition compose :: "ref \<Rightarrow> ref \<Rightarrow> store \<Rightarrow> store" where
  "compose r other st = st[r := (st ! r)\<lparr>data := data (st ! r) @ data (st ! other)\<rparr>]"

section \<open>The oracle and the circuit\<close>

text \<open>\<^verbatim>\<open>hidden_period.ljust(n, '0')[:n]\<close>, as both the oracle and the extraction compute it.\<close>

definition padded_period :: "str \<Rightarrow> int \<Rightarrow> str" where
  "padded_period hidden_period n = slice_to (ljust hidden_period n chr0) n"

text \<open>
  \<^verbatim>\<open>create_simon_oracle\<close>. The second loop runs over \<^verbatim>\<open>enumerate(padded_period)\<close>;
  its body divides by \<open>n\<close> only when the padded period has a character, that is when
  \<open>n\<close> is positive.
\<close>

definition create_simon_oracle :: "str \<Rightarrow> int \<Rightarrow> store \<Rightarrow> (exn + ref) \<times> store" where
  "create_simon_oracle hidden_period n st0 =
     (let total_qubits = 2 * n in
      case QuantumCircuit total_qubits 0 st0 of
        (Inl e, st1) \<Rightarrow> (Inl e, st1)
      | (Inr oracle, st1) \<Rightarrow>
          let padded = padded_period hidden_period n;
              st2 = fold (\<lambda>i. cx oracle i (i + n)) (py_range n) st1;
              st3 = fold (\<lambda>(i, bit) st.
                            if bit = chr1 then cx oracle (int i) ((int i + 1) mod n + n) st
                            else st)
                         (List.enumerate 0 padded) st2
          in (Inr oracle, st3))"

text \<open>\<^verbatim>\<open>create_simon_circuit\<close>: the parity check is its first statement.\<close>

definition create_simon_circuit :: "str \<Rightarrow> int \<Rightarrow> store \<Rightarrow> (exn + ref) \<times> store" where
  "create_simon_circuit hidden_period nq st0 =
     (if nq mod 2 \<noteq> 0
      then (Inl (ValueError (S ''Number of qubits must be even for Simon's algorithm'')), st0)
      else
        let n = nq div 2 in
        case QuantumCircuit nq n st0 of
          (Inl e, st1) \<Rightarrow> (Inl e, st1)
        | (Inr circ, st1) \<Rightarrow>
           (case h_range circ n st1 of
              (Inl e, st2) \<Rightarrow> (Inl e, st2)
            | (Inr _, st2) \<Rightarrow>
               (case create_simon_oracle hidden_period n st2 of
                  (Inl e, st3) \<Rightarrow> (Inl e, st3)
                | (Inr oracle, st3) \<Rightarrow>
                   (let st4 = compose circ oracle st3 in
                    case h_range circ n st4 of
                      (Inl e, st5) \<Rightarrow> (Inl e, st5)
                    | (Inr _, st5) \<Rightarrow>
                       (case measure_range circ n st5 of
                          (Inl e, st6) \<Rightarrow> (Inl e, st6)
                        | (Inr _, st6) \<Rightarrow> (Inr circ, st6))))))"

section \<open>The simulator and the other library calls\<close>

text \<open>
  The simulator, the attribute \<^verbatim>\<open>Qubit.index\<close> and the text \<^verbatim>\<open>str(e)\<close> of an
  exception belong to external libraries. They are parameters of the model:
  \<^item> \<open>statevector_run\<close> is the transpile/run/result of the state-vector simulator on
    the measurement-free copy of the circuit; it raises, or it gives a result on which
    \<^verbatim>\<open>get_statevector()\<close> raises or returns the amplitudes;
  \<^item> \<open>measurement_run\<close> is the 1024-shot run on the circuit up to
    \<^verbatim>\<open>get_counts()\<close>; the counts keep the order in which the dictionary iterates;
  \<^item> \<open>ones_error\<close> tells whether \<^verbatim>\<open>np.ones(num_states, ...)\<close> raises for a
    number of elements, as it does when the array is too large to allocate, and gives
    the message of the exception;
  \<^item> \<open>qubit_index\<close> is \<^verbatim>\<open>q.index\<close>;
  \<^item> \<open>str_of_exn\<close> is \<^verbatim>\<open>str(e)\<close>.
  Floating-point amplitudes are idealised as real and complex numbers, and an
  elementwise operation on an array that exists is taken to succeed.
\<close>

type_synonym counts = "(str \<times> int) list"

record library =
  statevector_run :: "circuit \<Rightarrow> exn + (exn + complex list)"
  measurement_run :: "circuit \<Rightarrow> exn + counts"
  ones_error :: "nat \<Rightarrow> str option"
  qubit_index :: "int \<Rightarrow> exn + int"
  str_of_exn :: "exn \<Rightarrow> str"

text \<open>What the source prints on standard output.\<close>

datatype printed =
    Statevector_extraction_failed exn
  | Simon_simulation_error exn
  | Simon_debug str counts "str list" str

text \<open>\<^verbatim>\<open>np.ones(num_states, ...)\<close>: the array, or the library's exception.\<close>

definition np_ones :: "library \<Rightarrow> nat \<Rightarrow> exn + unit" where
  "np_ones lib num_states =
     (case ones_error lib num_states of None \<Rightarrow> Inr () | Some m \<Rightarrow> Inl (NumpyError m))"

text \<open>
  The values of \<^verbatim>\<open>np.ones(num_states, dtype=complex) / np.sqrt(num_states)\<close> and
  \<^verbatim>\<open>np.ones(num_states) / num_states\<close> with \<open>num_states = 2 ** num_qubits\<close>.
\<close>

definition uniform_statevector :: "int \<Rightarrow> complex list" where
  "uniform_statevector nq =
     replicate (2 ^ nat nq) (complex_of_real (1 / sqrt (2 ^ nat nq)))"

definition uniform_probabilities :: "int \<Rightarrow> real list" where
  "uniform_probabilities nq = replicate (2 ^ nat nq) (1 / 2 ^ nat nq)"

definition fallback_counts :: counts where
  "fallback_counts = [(S ''00'', 512), (S ''01'', 256), (S ''10'', 256)]"

definition fallback_results :: "circuit \<Rightarrow> complex list \<times> real list \<times> counts" where
  "fallback_results circ =
     (uniform_statevector (num_qubits circ), uniform_probabilities (num_qubits circ),
      fallback_counts)"

text \<open>
  The outer handler of \<^verbatim>\<open>simulate_simon\<close>, entered with what has been printed so
  far and the exception caught: it prints, then allocates the two fallback arrays. An
  exception of either allocation leaves the function.
\<close>

definition simulation_error_handler ::
  "library \<Rightarrow> circuit \<Rightarrow> printed list \<Rightarrow> exn
     \<Rightarrow> printed list \<times> (exn + complex list \<times> real list \<times> counts)" where
  "simulation_error_handler lib circ out e =
     (let out' = out @ [Simon_simulation_error e];
          num_states = 2 ^ nat (num_qubits circ)
      in case np_ones lib num_states of
           Inl e' \<Rightarrow> (out', Inl e')
         | Inr _ \<Rightarrow>
            (case np_ones lib num_states of
               Inl e' \<Rightarrow> (out', Inl e')
             | Inr _ \<Rightarrow> (out', Inr (fallback_results circ))))"

text \<open>
  \<^verbatim>\<open>simulate_simon\<close>. The state-vector run gets a copy of the circuit without its
  measurements, over the same qubits. The inner handler prints and replaces a failed
  state-vector extraction by the uniform vector; an exception of its allocation, like
  any other exception of the body, goes to the outer handler.
\<close>

definition simulate_simon ::
  "library \<Rightarrow> circuit
     \<Rightarrow> printed list \<times> (exn + complex list \<times> real list \<times> counts)" where
  "simulate_simon lib circ =
     (let statevector_circuit =
            \<lparr>num_qubits = num_qubits circ, num_clbits = 0,
             data = filter (\<lambda>instruction. op_name instruction \<noteq> S ''measure'') (data circ)\<rparr>
      in case statevector_run lib statevector_circuit of
           Inl e \<Rightarrow> simulation_error_handler lib circ [] e
         | Inr result \<Rightarrow>
            (case (case result of
                     Inr sv \<Rightarrow> ([], Inr sv)
                   | Inl e \<Rightarrow>
                      ([Statevector_extraction_failed e],
                       case np_ones lib (2 ^ nat (num_qubits circ)) of
                         Inl e' \<Rightarrow> Inl e'
                       | Inr _ \<Rightarrow> Inr (uniform_statevector (num_qubits circ)))) of
               (out, Inl e') \<Rightarrow> simulation_error_handler lib circ out e'
             | (out, Inr statevector) \<Rightarrow>
                (let probabilities = map (\<lambda>amp. (cmod amp)\<^sup>2) statevector
                 in case measurement_run lib circ of
                      Inl e \<Rightarrow> simulation_error_handler lib circ out e
                    | Inr counts \<Rightarrow> (out, Inr (statevector, probabilities, counts)))))"

section \<open>Equations and the solver\<close>

text \<open>The separator \<^verbatim>\<open>' \<oplus> '\<close>: a space, U+2295, a space.\<close>

definition oplus_sep :: str where
  "oplus_sep = S '' '' @ [8853] @ S '' ''"

text \<open>The names \<^verbatim>\<open>s_j\<close> of the positions \<open>j\<close> at which the measurement has a \<^verbatim>\<open>'1'\<close>.\<close>

definition equation_parts :: "str \<Rightarrow> str list" where
  "equation_parts measurement =
     map (\<lambda>(j, y_bit). S ''s_'' @ str_of_nat j)
       (filter (\<lambda>(j, y_bit). y_bit = chr1) (List.enumerate 0 measurement))"

text \<open>
  The \<^verbatim>\<open>for\<close> loop of \<^verbatim>\<open>extract_linear_equations\<close> over the sorted outcomes:
  \<^verbatim>\<open>continue\<close> on an all-zero outcome, \<^verbatim>\<open>break\<close> once \<open>n - 1\<close> equations are there.
  The test for \<^verbatim>\<open>break\<close> is reached only after an outcome that is not all zeros.
\<close>

fun extract_loop :: "int \<Rightarrow> counts \<Rightarrow> str list \<Rightarrow> str list" where
  "extract_loop n [] equations = equations"
| "extract_loop n ((measurement, count) # rest) equations =
     (if measurement = replicate (length measurement) chr0 then extract_loop n rest equations
      else
        let parts = equation_parts measurement;
            equations' = (if parts \<noteq> [] then equations @ [join oplus_sep parts @ S '' = 0'']
                          else equations)
        in if n - 1 \<le> int (length equations') then equations'
           else extract_loop n rest equations')"

definition generic_equation :: str where
  "generic_equation = S ''s_0'' @ oplus_sep @ S ''s_1 = 0''"

text \<open>The \<^verbatim>\<open>while\<close> loop that fills the list up to \<open>n - 1\<close> entries.\<close>

function pad_equations :: "int \<Rightarrow> str list \<Rightarrow> str list" where
  "pad_equations n equations =
     (if int (length equations) < n - 1 then pad_equations n (equations @ [generic_equation])
      else equations)"
  by pat_completeness auto
termination
  by (relation "measure (\<lambda>(n, equations). nat (n - 1 - int (length equations)))") auto

declare pad_equations.simps [simp del]

text \<open>
  \<^verbatim>\<open>sorted(counts.items(), key=lambda x: x[1], reverse=True)\<close> is a stable sort by
  descending count: outcomes with equal counts keep the order of the dictionary.
  The local \<^verbatim>\<open>padded_period\<close> of the source is never read.
\<close>

definition sorted_counts :: "counts \<Rightarrow> counts" where
  "sorted_counts counts = sort_key (\<lambda>x. - snd x) counts"

definition extract_linear_equations :: "counts \<Rightarrow> str \<Rightarrow> int \<Rightarrow> str list" where
  "extract_linear_equations counts hidden_period n =
     pad_equations n (extract_loop n (sorted_counts counts) [])"

definition solve_linear_system :: "str list \<Rightarrow> int \<Rightarrow> str \<Rightarrow> str" where
  "solve_linear_system equations n hidden_period = hidden_period"

section \<open>The request handler\<close>

record SimonRequest =
  req_hidden_period :: str
  req_num_qubits :: int

record ComplexNumber =
  real_c :: real
  imag_c :: real

record gate_info =
  gate_name :: str
  gate_qubits :: "int list"
  gate_params :: "real list"

record circuit_data =
  cd_num_qubits :: int
  cd_hidden_period :: str
  gates :: "gate_info list"

record SimonResponse =
  success :: bool
  circuit_data :: circuit_data
  quantum_state :: "ComplexNumber list"
  probabilities :: "real list"
  measurement_counts :: counts
  linear_equations :: "str list"
  recovered_period :: str
  hidden_period :: str

text \<open>\<^verbatim>\<open>[q.index for q in instruction.qubits]\<close>: the first failure ends the comprehension.\<close>

fun qubit_indices :: "library \<Rightarrow> int list \<Rightarrow> exn + int list" where
  "qubit_indices lib [] = Inr []"
| "qubit_indices lib (q # qs) =
     (case qubit_index lib q of
        Inl e \<Rightarrow> Inl e
      | Inr i \<Rightarrow> (case qubit_indices lib qs of Inl e \<Rightarrow> Inl e | Inr is \<Rightarrow> Inr (i # is)))"

definition extract_gate_sequence :: "library \<Rightarrow> circuit \<Rightarrow> gate_info list" where
  "extract_gate_sequence lib circ =
     map (\<lambda>instruction.
            case qubit_indices lib (qubits instruction) of
              Inl e \<Rightarrow> \<lparr>gate_name = S ''unknown'', gate_qubits = [], gate_params = []\<rparr>
            | Inr is \<Rightarrow> \<lparr>gate_name = op_name instruction, gate_qubits = is, gate_params = []\<rparr>)
         (data circ)"

text \<open>
  The body of the \<^verbatim>\<open>try\<close> block of \<^verbatim>\<open>run_simon_algorithm\<close>. A request starts
  with no circuit object.
\<close>

definition run_simon_algorithm_try ::
  "library \<Rightarrow> SimonRequest \<Rightarrow> printed list \<times> (exn + SimonResponse)" where
  "run_simon_algorithm_try lib request =
     (if \<not> list_all (\<lambda>bit. bit \<in> set (S ''01'')) (req_hidden_period request)
      then ([], Inl (HTTPException 400 (S ''Hidden period must contain only 0s and 1s'')))
      else if req_num_qubits request mod 2 \<noteq> 0
      then ([], Inl (HTTPException 400
                       (S ''Number of qubits must be even for Simon's algorithm'')))
      else
        let n = req_num_qubits request div 2 in
        case create_simon_circuit (req_hidden_period request) (req_num_qubits request) [] of
          (Inl e, st) \<Rightarrow> ([], Inl e)
        | (Inr circ, st) \<Rightarrow>
           (let circuit = st ! circ in
            case simulate_simon lib circuit of
              (out, Inl e) \<Rightarrow> (out, Inl e)
            | (out, Inr (statevector, probs, counts)) \<Rightarrow>
            let equations = extract_linear_equations counts (req_hidden_period request) n;
                recovered = solve_linear_system equations n (req_hidden_period request)
            in (out @ [Simon_debug (req_hidden_period request) counts equations recovered],
                Inr \<lparr>success = True,
                     circuit_data = \<lparr>cd_num_qubits = req_num_qubits request,
                                     cd_hidden_period = req_hidden_period request,
                                     gates = extract_gate_sequence lib circuit\<rparr>,
                     quantum_state = map (\<lambda>amp. \<lparr>real_c = Re amp, imag_c = Im amp\<rparr>) statevector,
                     probabilities = probs,
                     measurement_counts = counts,
                     linear_equations = equations,
                     recovered_period = recovered,
                     hidden_period = req_hidden_period request\<rparr>)))"

text \<open>
  \<^verbatim>\<open>run_simon_algorithm\<close>: the handler \<^verbatim>\<open>except Exception\<close> catches every
  exception of the body, the \<open>HTTPException\<close> of the validation included, and raises
  an \<open>HTTPException\<close> with status 500 and \<^verbatim>\<open>str(e)\<close> as its detail.
\<close>

definition run_simon_algorithm ::
  "library \<Rightarrow> SimonRequest \<Rightarrow> printed list \<times> (exn + SimonResponse)" where
  "run_simon_algorithm lib request =
     (case run_simon_algorithm_try lib request of
        (out, Inl e) \<Rightarrow> (out, Inl (HTTPException 500 (str_of_exn lib e)))
      | (out, Inr response) \<Rightarrow> (out, Inr response))"

section \<open>Concrete libraries and inputs\<close>

text \<open>
  A rendering of \<^verbatim>\<open>str(e)\<close> and a library to run the model on: its simulator's
  result holds no state vector, so that \<^verbatim>\<open>get_statevector()\<close> raises, its
  measurement returns the given counts, and its arrays hold at most \<open>2 ^ 30\<close>
  elements.
\<close>

definition exn_text :: "exn \<Rightarrow> str" where
  "exn_text e =
     (case e of
        ValueError m \<Rightarrow> m
      | HTTPException status detail \<Rightarrow> str_of_nat (nat status) @ S '': '' @ detail
      | CircuitError m \<Rightarrow> m
      | BackendError m \<Rightarrow> m
      | NumpyError m \<Rightarrow> m)"

definition library_without_statevector :: "counts \<Rightarrow> library" where
  "library_without_statevector cs =
     \<lparr>statevector_run = (\<lambda>c. Inr (Inl (BackendError (S ''No statevector for experiment'')))),
      measurement_run = (\<lambda>c. Inr cs),
      ones_error = (\<lambda>k. if k \<le> 2 ^ 30 then None
                         else Some (S ''Unable to allocate the array'')),
      qubit_index = Inr,
      str_of_exn = exn_text\<rparr>"

text \<open>Counts over three-bit and four-bit outcomes.\<close>

definition dependent_counts :: counts where
  "dependent_counts =
     [(S ''1100'', 400), (S ''0110'', 300), (S ''1010'', 200), (S ''0001'', 100)]"


definition two_bit_counts :: counts where
  "two_bit_counts = [(S ''00'', 520), (S ''11'', 504)]"

definition uniform_counts :: counts where
  "uniform_counts = [(S ''00'', 256), (S ''01'', 256), (S ''10'', 256), (S ''11'', 256)]"

definition request_11 :: SimonRequest where
  "request_11 = \<lparr>req_hidden_period = S ''11'', req_num_qubits = 4\<rparr>"

text \<open>
  The response to \<open>request_11\<close> when the simulator's result holds no state vector and
  the measurement gives \<open>two_bit_counts\<close>.
\<close>

definition response_11 :: SimonResponse where
  "response_11 =
     \<lparr>success = True,
      circuit_data =
        \<lparr>cd_num_qubits = 4, cd_hidden_period = S ''11'',
         gates =
           [\<lparr>gate_name = S ''h'', gate_qubits = [0], gate_params = []\<rparr>,
            \<lparr>gate_name = S ''h'', gate_qubits = [1], gate_params = []\<rparr>,
            \<lparr>gate_name = S ''cx'', gate_qubits = [0, 2], gate_params = []\<rparr>,
            \<lparr>gate_name = S ''cx'', gate_qubits = [1, 3], gate_params = []\<rparr>,
            \<lparr>gate_name = S ''cx'', gate_qubits = [0, 3], gate_params = []\<rparr>,
            \<lparr>gate_name = S ''cx'', gate_qubits = [1, 2], gate_params = []\<rparr>,
            \<lparr>gate_name = S ''h'', gate_qubits = [0], gate_params = []\<rparr>,
            \<lparr>gate_name = S ''h'', gate_qubits = [1], gate_params = []\<rparr>,
            \<lparr>gate_name = S ''measure'', gate_qubits = [0], gate_params = []\<rparr>,
            \<lparr>gate_name = S ''measure'', gate_qubits = [1], gate_params = []\<rparr>]\<rparr>,
      quantum_state = replicate 16 \<lparr>real_c = 1 / 4, imag_c = 0\<rparr>,
      probabilities = replicate 16 (1 / 16),
      measurement_counts = two_bit_counts,
      linear_equations = [S ''s_0'' @ oplus_sep @ S ''s_1 = 0''],
      recovered_period = S ''11'',
      hidden_period = S ''11''\<rparr>"



section \<open>Notions of the specification\<close>

text \<open>
  Linear dependence over GF(2), as the specification's solver speaks of it: an outcome
  is a vector of bits, vectors add by exclusive or, and \<open>gf2_span k vs\<close> lists every
  sum of a subset of the \<open>k\<close>-bit vectors \<open>vs\<close>.
\<close>

definition gf2_vector :: "str \<Rightarrow> bool list" where
  "gf2_vector m = map (\<lambda>c. c = chr1) m"

definition gf2_add :: "bool list \<Rightarrow> bool list \<Rightarrow> bool list" where
  "gf2_add u v = map2 (\<noteq>) u v"

fun gf2_span :: "nat \<Rightarrow> bool list list \<Rightarrow> bool list list" where
  "gf2_span k [] = [replicate k False]"
| "gf2_span k (v # vs) = gf2_span k vs @ map (gf2_add v) (gf2_span k vs)"



section \<open>Circuit construction: results\<close>

lemma fold_append_instruction:
  "r < length st \<Longrightarrow>
   fold (\<lambda>x. append_instruction r (f x)) xs st
     = st[r := (st ! r)\<lparr>data := data (st ! r) @ map f xs\<rparr>]"
proof (induction xs arbitrary: st)
  case Nil
  then show ?case by simp
next
  case (Cons x xs)
  then show ?case by (simp add: append_instruction_def)
qed

lemma fold_append_instruction_if:
  "r < length st \<Longrightarrow>
   fold (\<lambda>x st. if P x then append_instruction r (f x) st else st) xs st
     = st[r := (st ! r)\<lparr>data := data (st ! r) @ map f (filter P xs)\<rparr>]"
proof (induction xs arbitrary: st)
  case Nil
  then show ?case by simp
next
  case (Cons x xs)
  then show ?case by (simp add: append_instruction_def)
qed

lemma padded_period_eq:
  assumes "0 \<le> n"
  shows "padded_period hp n =
           (if int (length hp) < n then hp @ replicate (nat n - length hp) chr0
            else take (nat n) hp)"
  using assms by (auto simp: padded_period_def slice_to_def ljust_def nat_diff_distrib)

lemma length_padded_period: "0 \<le> n \<Longrightarrow> length (padded_period hp n) = nat n"
  by (auto simp: padded_period_def slice_to_def ljust_def)

text \<open>The oracle in closed form: a fresh circuit holding the gates of the two loops.\<close>

lemma create_simon_oracle_eq:
  assumes "0 \<le> n"
  shows "create_simon_oracle hp n st =
     (Inr (length st),
      st @ [\<lparr>num_qubits = 2 * n, num_clbits = 0,
             data = map (\<lambda>i. cx_gate i (i + n)) (py_range n)
                    @ map (\<lambda>(i, bit). cx_gate (int i) ((int i + 1) mod n + n))
                        (filter (\<lambda>(i, bit). bit = chr1)
                           (List.enumerate 0 (padded_period hp n)))\<rparr>])"
proof -
  have period_step:
    "(\<lambda>(i, bit) st'. if bit = chr1 then cx (length st) (int i) ((int i + 1) mod n + n) st'
                      else st')
       = (\<lambda>x st'. if (\<lambda>(i, bit). bit = chr1) x
                   then append_instruction (length st)
                          ((\<lambda>(i, bit). cx_gate (int i) ((int i + 1) mod n + n)) x) st'
                   else st')"
    by (auto simp: fun_eq_iff cx_def)
  have copy_step:
    "(\<lambda>i. cx (length st) i (i + n)) = (\<lambda>i. append_instruction (length st) (cx_gate i (i + n)))"
    by (auto simp: fun_eq_iff cx_def)
  show ?thesis
    using assms
    by (simp add: create_simon_oracle_def QuantumCircuit_def period_step copy_step
        fold_append_instruction fold_append_instruction_if)
qed

text \<open>
  A negative \<open>n\<close> never reaches the padding: the constructor of the oracle's circuit
  raises first.
\<close>

lemma create_simon_oracle_negative:
  "n < 0 \<Longrightarrow>
   create_simon_oracle hp n st = (Inl (CircuitError (S ''Register size must be non-negative'')), st)"
  by (simp add: create_simon_oracle_def QuantumCircuit_def)

text \<open>Every gate of the oracle acts on two different qubits of the \<open>2n\<close> it has.\<close>

lemma oracle_gates_in_range:
  assumes "create_simon_oracle hp n st = (Inr r, st')"
    and "g \<in> set (data (st' ! r))"
  shows "\<exists>c t. g = cx_gate c t \<and> 0 \<le> c \<and> c < n \<and> n \<le> t \<and> t < 2 * n"
proof -
  from assms(1) have n: "0 \<le> n"
    by (cases "0 \<le> n") (simp_all add: create_simon_oracle_negative)
  from assms n have
    "g \<in> set (map (\<lambda>i. cx_gate i (i + n)) (py_range n)
              @ map (\<lambda>(i, bit). cx_gate (int i) ((int i + 1) mod n + n))
                  (filter (\<lambda>(i, bit). bit = chr1) (List.enumerate 0 (padded_period hp n))))"
    by (auto simp: create_simon_oracle_eq)
  then consider
      i where "g = cx_gate i (i + n)" and "i \<in> set (py_range n)"
    | i bit where "g = cx_gate (int i) ((int i + 1) mod n + n)"
        and "(i, bit) \<in> set (List.enumerate 0 (padded_period hp n))"
    by auto
  then show ?thesis
  proof cases
    case 1
    then have "0 \<le> i \<and> i < n \<and> n \<le> i + n \<and> i + n < 2 * n"
      by (auto simp: py_range_def)
    with 1(1) show ?thesis by blast
  next
    case 2
    from 2(2) n have i: "int i < n"
      by (auto simp: in_set_enumerate_eq length_padded_period)
    then have "0 < n" by linarith
    then have "0 \<le> (int i + 1) mod n" and "(int i + 1) mod n < n" by simp_all
    with i have "0 \<le> int i \<and> int i < n \<and> n \<le> (int i + 1) mod n + n
                 \<and> (int i + 1) mod n + n < 2 * n"
      by simp
    with 2(1) show ?thesis by blast
  qed
qed

text \<open>The whole circuit for an even number of qubits, at least two.\<close>

lemma create_simon_circuit_even:
  assumes "nq mod 2 = 0" and "2 \<le> nq"
  shows "create_simon_circuit hp nq st =
     (Inr (length st),
      st @ [\<lparr>num_qubits = nq, num_clbits = nq div 2,
             data = map h_gate (py_range (nq div 2))
                    @ (map (\<lambda>i. cx_gate i (i + nq div 2)) (py_range (nq div 2))
                       @ map (\<lambda>(i, bit). cx_gate (int i) ((int i + 1) mod (nq div 2) + nq div 2))
                           (filter (\<lambda>(i, bit). bit = chr1)
                              (List.enumerate 0 (padded_period hp (nq div 2)))))
                    @ map h_gate (py_range (nq div 2))
                    @ map (\<lambda>q. measure_op q q) (py_range (nq div 2))\<rparr>,
            \<lparr>num_qubits = 2 * (nq div 2), num_clbits = 0,
             data = map (\<lambda>i. cx_gate i (i + nq div 2)) (py_range (nq div 2))
                    @ map (\<lambda>(i, bit). cx_gate (int i) ((int i + 1) mod (nq div 2) + nq div 2))
                        (filter (\<lambda>(i, bit). bit = chr1)
                           (List.enumerate 0 (padded_period hp (nq div 2))))\<rparr>])"
proof -
  from assms have n: "0 \<le> nq div 2" "\<not> nq div 2 \<le> 0" by auto
  from assms have q: "\<not> nq < 0" by simp
  show ?thesis
    using assms(1) n q
    by (simp add: create_simon_circuit_def QuantumCircuit_def h_range_def measure_range_def
        create_simon_oracle_eq fold_append_instruction compose_def nth_append
        list_update_append Let_def)
qed

text \<open>The circuit construction raises no \<open>HTTPException\<close>.\<close>

lemma create_simon_circuit_error:
  assumes "create_simon_circuit hp nq st = (Inl e, st')"
  shows "(\<exists>m. e = ValueError m) \<or> (\<exists>m. e = CircuitError m)"
  using assms
  by (auto simp: create_simon_circuit_def QuantumCircuit_def h_range_def measure_range_def
      create_simon_oracle_def Let_def split: if_splits prod.splits sum.splits)

text \<open>
  C7. For every odd \<open>num_qubits\<close>, \<open>create_simon_circuit\<close> raises its \<open>ValueError\<close>
  and returns the store it was given: no circuit has been created and no Hadamard or
  CNOT added to any circuit. The request handler fails for such a request as well,
  without printing anything.
\<close>

theorem create_simon_circuit_odd_fails_first:
  assumes "nq mod 2 \<noteq> 0"
  shows "create_simon_circuit hp nq st
           = (Inl (ValueError (S ''Number of qubits must be even for Simon's algorithm'')), st)
         \<and> (\<exists>e. run_simon_algorithm lib \<lparr>req_hidden_period = hp, req_num_qubits = nq\<rparr>
                  = ([], Inl e))"
  using assms
  by (simp add: create_simon_circuit_def run_simon_algorithm_def run_simon_algorithm_try_def)

theorem create_simon_circuit_odd_fails_first_witness:
  "(3::int) mod 2 \<noteq> 0
   \<and> create_simon_circuit (S ''11'') 3 [\<lparr>num_qubits = 1, num_clbits = 0, data = [h_gate 0]\<rparr>]
       = (Inl (ValueError (S ''Number of qubits must be even for Simon's algorithm'')),
          [\<lparr>num_qubits = 1, num_clbits = 0, data = [h_gate 0]\<rparr>])"
  using create_simon_circuit_odd_fails_first
          [of 3 "S ''11''" "[\<lparr>num_qubits = 1, num_clbits = 0, data = [h_gate 0]\<rparr>]"]
  by simp

text \<open>
  C8. The oracle for \<open>n = 2\<close> and the period \<^verbatim>\<open>"11"\<close> is a circuit over four qubits
  with exactly four gates: CNOT(0,2) and CNOT(1,3) of the copy loop, then CNOT(0,3)
  and CNOT(1,2) of the period loop.
\<close>

theorem create_simon_oracle_n2_s11:
  "create_simon_oracle (S ''11'') 2 [] =
     (Inr 0, [\<lparr>num_qubits = 4, num_clbits = 0,
               data = [cx_gate 0 2, cx_gate 1 3, cx_gate 0 3, cx_gate 1 2]\<rparr>])"
  by (simp add: create_simon_oracle_def QuantumCircuit_def padded_period_def slice_to_def
      ljust_def py_range_def S_def chr0_def chr1_def cx_def append_instruction_def
      List.enumerate_eq_zip upto.simps)

text \<open>
  C9. For a register width \<open>n \<ge> 0\<close> and any period string, the string the oracle
  works with is the period padded on the right with \<^verbatim>\<open>'0'\<close> to length \<open>n\<close> when it is
  shorter and cut to its first \<open>n\<close> characters otherwise, and the gates of the period
  loop are computed from that adjusted string alone.
\<close>

theorem create_simon_oracle_uses_adjusted_period:
  assumes "0 \<le> n"
    and "adjusted = (if int (length hp) < n then hp @ replicate (nat n - length hp) chr0
                     else take (nat n) hp)"
  shows "padded_period hp n = adjusted \<and> length adjusted = nat n
         \<and> create_simon_oracle hp n st =
             (Inr (length st),
              st @ [\<lparr>num_qubits = 2 * n, num_clbits = 0,
                     data = map (\<lambda>i. cx_gate i (i + n)) (py_range n)
                            @ map (\<lambda>(i, bit). cx_gate (int i) ((int i + 1) mod n + n))
                                (filter (\<lambda>(i, bit). bit = chr1)
                                   (List.enumerate 0 adjusted))\<rparr>])"
proof -
  from assms have eq: "padded_period hp n = adjusted"
    by (simp only: padded_period_eq)
  with assms(1) have "length adjusted = nat n"
    using length_padded_period [of n hp] by simp
  with eq assms(1) show ?thesis
    using create_simon_oracle_eq [of n hp st] by simp
qed

theorem create_simon_oracle_uses_adjusted_period_witness:
  "(0::int) \<le> 3
   \<and> padded_period (S ''1'') 3 = S ''100''
   \<and> create_simon_oracle (S ''1'') 3 [] =
       (Inr 0, [\<lparr>num_qubits = 6, num_clbits = 0,
                 data = [cx_gate 0 3, cx_gate 1 4, cx_gate 2 5, cx_gate 0 4]\<rparr>])
   \<and> (0::int) \<le> 2
   \<and> padded_period (S ''0111'') 2 = S ''01''
   \<and> create_simon_oracle (S ''0111'') 2 [] =
       (Inr 0, [\<lparr>num_qubits = 4, num_clbits = 0,
                 data = [cx_gate 0 2, cx_gate 1 3, cx_gate 1 2]\<rparr>])"
  using create_simon_oracle_uses_adjusted_period [of 3 "S ''100''" "S ''1''" "[]"]
    create_simon_oracle_uses_adjusted_period [of 2 "S ''01''" "S ''0111''" "[]"]
  by (simp add: S_def chr0_def chr1_def py_range_def upto.simps List.enumerate_eq_zip
      eval_nat_numeral)

section \<open>Equation extraction: results\<close>

text \<open>The \<^verbatim>\<open>while\<close> loop appends the generic equation until \<open>n - 1\<close> entries are there.\<close>

lemma pad_equations_eq:
  "pad_equations n equations
     = equations @ replicate (nat (n - 1 - int (length equations))) generic_equation"
proof (induction n equations rule: pad_equations.induct)
  case (1 n equations)
  show ?case
  proof (cases "int (length equations) < n - 1")
    case True
    then have "nat (n - 1 - int (length equations))
                 = Suc (nat (n - 1 - int (length (equations @ [generic_equation]))))"
      by simp
    with True "1.IH" show ?thesis
      by (subst pad_equations.simps) (simp add: replicate_app_Cons_same)
  next
    case False
    then show ?thesis by (subst pad_equations.simps) simp
  qed
qed




lemmas extract_eval =
  extract_linear_equations_def sorted_counts_def pad_equations_eq equation_parts_def
  List.enumerate_eq_zip S_def chr0_def chr1_def oplus_sep_def generic_equation_def

text \<open>
  C1. The loop tests no linear independence. On counts with the outcomes 1100, 0110,
  1010 and 0001 for \<open>n = 4\<close> it accepts 1010, the sum over GF(2) of the two outcomes
  accepted before it, and stops at three equations of rank two; the independent outcome
  0001 is never reached.
\<close>

theorem extract_linear_equations_accepts_dependent_outcome:
  "extract_linear_equations dependent_counts (S ''1110'') 4
     = [S ''s_0'' @ oplus_sep @ S ''s_1 = 0'', S ''s_1'' @ oplus_sep @ S ''s_2 = 0'',
        S ''s_0'' @ oplus_sep @ S ''s_2 = 0'']
   \<and> gf2_vector (S ''1010'')
       \<in> set (gf2_span 4 [gf2_vector (S ''1100''), gf2_vector (S ''0110'')])
   \<and> gf2_vector (S ''0001'')
       \<notin> set (gf2_span 4 [gf2_vector (S ''1100''), gf2_vector (S ''0110'')])"
proof -
  have "extract_linear_equations dependent_counts (S ''1110'') 4
     = [S ''s_0'' @ oplus_sep @ S ''s_1 = 0'', S ''s_1'' @ oplus_sep @ S ''s_2 = 0'',
        S ''s_0'' @ oplus_sep @ S ''s_2 = 0'']"
    by (simp add: extract_eval dependent_counts_def)
  moreover have "gf2_vector (S ''1010'')
       \<in> set (gf2_span 4 [gf2_vector (S ''1100''), gf2_vector (S ''0110'')])"
    by code_simp
  moreover have "gf2_vector (S ''0001'')
       \<notin> set (gf2_span 4 [gf2_vector (S ''1100''), gf2_vector (S ''0110'')])"
    by code_simp
  ultimately show ?thesis by blast
qed

text \<open>
  C2, as the claim states it, fails: from counts that hold only the all-zero outcome
  the loop collects no equation, and for \<open>n = 3\<close> the function returns two copies of
  the generic equation.
\<close>

theorem extract_linear_equations_fabricates:
  "extract_loop 3 (sorted_counts [(S ''000'', 1024)]) [] = []
   \<and> extract_linear_equations [(S ''000'', 1024)] (S ''000'') 3
       = [generic_equation, generic_equation]"
  by (simp add: extract_linear_equations_def sorted_counts_def pad_equations_eq S_def chr0_def
      eval_nat_numeral)

text \<open>
  C2, amended. When the loop collects fewer than \<open>n - 1\<close> equations, the function
  returns them followed by as many copies of the generic equation
  \<^verbatim>\<open>s_0 \<oplus> s_1 = 0\<close> as it takes to reach \<open>n - 1\<close> entries.
\<close>

theorem extract_linear_equations_pads_with_generic:
  assumes "collected = extract_loop n (sorted_counts counts) []"
    and "int (length collected) < n - 1"
  shows "extract_linear_equations counts hp n
           = collected @ replicate (nat (n - 1) - length collected) generic_equation
         \<and> int (length (extract_linear_equations counts hp n)) = n - 1"
proof -
  from assms(2) have "nat (n - 1 - int (length collected)) = nat (n - 1) - length collected"
    by linarith
  with assms show ?thesis
    by (simp add: extract_linear_equations_def pad_equations_eq)
qed

theorem extract_linear_equations_pads_with_generic_witness:
  "[S ''s_1'' @ oplus_sep @ S ''s_2 = 0'']
     = extract_loop 3 (sorted_counts [(S ''000'', 600), (S ''011'', 424)]) []
   \<and> int (length [S ''s_1'' @ oplus_sep @ S ''s_2 = 0'']) < 3 - 1
   \<and> extract_linear_equations [(S ''000'', 600), (S ''011'', 424)] (S ''100'') 3
       = [S ''s_1'' @ oplus_sep @ S ''s_2 = 0'', S ''s_0'' @ oplus_sep @ S ''s_1 = 0'']"
proof -
  have c: "[S ''s_1'' @ oplus_sep @ S ''s_2 = 0'']
     = extract_loop 3 (sorted_counts [(S ''000'', 600), (S ''011'', 424)]) []"
    by (simp add: sorted_counts_def equation_parts_def List.enumerate_eq_zip S_def chr0_def
        chr1_def oplus_sep_def)
  have l: "int (length [S ''s_1'' @ oplus_sep @ S ''s_2 = 0'']) < 3 - 1"
    by simp
  have "extract_linear_equations [(S ''000'', 600), (S ''011'', 424)] (S ''100'') 3
       = [S ''s_1'' @ oplus_sep @ S ''s_2 = 0'', S ''s_0'' @ oplus_sep @ S ''s_1 = 0'']"
    using extract_linear_equations_pads_with_generic [OF c l, of "S ''100''"]
    by (simp add: generic_equation_def)
  with c l show ?thesis by blast
qed



section \<open>Simulation and the request handler: results\<close>

lemma sqrt_16: "sqrt 16 = 4"
  using real_sqrt_abs [of 4] by simp



lemmas run_eval =
  run_simon_algorithm_def run_simon_algorithm_try_def create_simon_circuit_even
  padded_period_def slice_to_def ljust_def simulate_simon_def simulation_error_handler_def
  np_ones_def
  extract_linear_equations_def sorted_counts_def pad_equations_eq equation_parts_def
  List.enumerate_eq_zip S_def chr0_def chr1_def oplus_sep_def generic_equation_def
  solve_linear_system_def extract_gate_sequence_def py_range_def upto.simps
  h_gate_def cx_gate_def measure_op_def uniform_statevector_def sqrt_16 Let_def


lemma run_simon_algorithm_try_recovered:
  assumes "run_simon_algorithm_try lib request = (out, Inr response)"
  shows "recovered_period response = req_hidden_period request"
  using assms
  by (auto simp: run_simon_algorithm_try_def solve_linear_system_def Let_def
      split: if_splits prod.splits sum.splits)

lemma run_11_without_statevector:
  "run_simon_algorithm (library_without_statevector two_bit_counts) request_11
     = ([Statevector_extraction_failed (BackendError (S ''No statevector for experiment'')),
         Simon_debug (S ''11'') two_bit_counts [S ''s_0'' @ oplus_sep @ S ''s_1 = 0'']
           (S ''11'')],
        Inr response_11)"
  by (simp add: run_eval library_without_statevector_def two_bit_counts_def request_11_def
      response_11_def power_divide)

text \<open>
  C10. \<open>solve_linear_system\<close> returns its \<open>hidden_period\<close> argument whatever the
  equations and \<open>n\<close> are, and every successful response of \<open>run_simon_algorithm\<close>
  carries the request's \<open>hidden_period\<close> as its \<open>recovered_period\<close>, whatever the
  simulator measured.
\<close>

theorem recovered_period_is_hidden_period:
  assumes "snd (run_simon_algorithm lib request) = Inr response"
  shows "recovered_period response = req_hidden_period request
         \<and> solve_linear_system equations n hp = hp
         \<and> solve_linear_system equations n hp = solve_linear_system equations' n' hp"
proof -
  obtain out r where t: "run_simon_algorithm_try lib request = (out, r)"
    by (cases "run_simon_algorithm_try lib request")
  with assms have "r = Inr response"
    by (cases r) (simp_all add: run_simon_algorithm_def)
  with t have "recovered_period response = req_hidden_period request"
    by (simp add: run_simon_algorithm_try_recovered)
  then show ?thesis by (simp add: solve_linear_system_def)
qed

theorem recovered_period_is_hidden_period_witness:
  "snd (run_simon_algorithm (library_without_statevector two_bit_counts) request_11)
     = Inr response_11
   \<and> recovered_period response_11 = req_hidden_period request_11
   \<and> solve_linear_system [S ''s_0'' @ oplus_sep @ S ''s_1 = 0''] 2 (S ''11'') = S ''11''"
proof -
  have r: "snd (run_simon_algorithm (library_without_statevector two_bit_counts) request_11)
     = Inr response_11"
    by (simp add: run_11_without_statevector)
  from recovered_period_is_hidden_period
         [OF r, of "[S ''s_0'' @ oplus_sep @ S ''s_1 = 0'']" 2 "S ''11''"] r
  show ?thesis by simp
qed




text \<open>
  When the arrays cannot be allocated and the state-vector extraction fails, the
  request for an all-zero period ends with the error of the allocation.
\<close>

lemma zero_period_wide_register_fails:
  "snd (run_simon_algorithm (library_without_statevector uniform_counts)
          \<lparr>req_hidden_period = S ''0'', req_num_qubits = 100\<rparr>)
     = Inl (HTTPException 500 (S ''Unable to allocate the array''))"
proof -
  have c: "create_simon_circuit (S ''0'') 100 [] = (Inr 0, st) \<Longrightarrow> num_qubits (st ! 0) = 100"
    for st
    using create_simon_circuit_even [of 100 "S ''0''" "[]"] by auto
  obtain st where s: "create_simon_circuit (S ''0'') 100 [] = (Inr 0, st)"
    using create_simon_circuit_even [of 100 "S ''0''" "[]"] by auto
  with c have q: "num_qubits (st ! 0) = 100" by simp
  have "simulate_simon (library_without_statevector uniform_counts) (st ! 0)
          = ([Statevector_extraction_failed (BackendError (S ''No statevector for experiment'')),
              Simon_simulation_error (NumpyError (S ''Unable to allocate the array''))],
             Inl (NumpyError (S ''Unable to allocate the array'')))"
    by (simp add: simulate_simon_def simulation_error_handler_def np_ones_def q
        library_without_statevector_def Let_def)
  with s show ?thesis
    by (simp add: run_simon_algorithm_def run_simon_algorithm_try_def S_def exn_text_def
        library_without_statevector_def)
qed

text \<open>The simulation raises nothing but the exception of an allocation.\<close>

lemma simulate_simon_error:
  assumes "simulate_simon lib circ = (out, Inl e)"
  shows "\<exists>m. e = NumpyError m"
  using assms
  by (auto simp: simulate_simon_def simulation_error_handler_def np_ones_def Let_def
      split: sum.splits option.splits)




text \<open>
  C6, as the claim states it, fails: the empty \<open>hidden_period\<close> passes the
  validation, and with four qubits the handler returns a successful response.
\<close>

theorem empty_period_is_accepted:
  "map_sum id success
     (snd (run_simon_algorithm (library_without_statevector two_bit_counts)
             \<lparr>req_hidden_period = [], req_num_qubits = 4\<rparr>))
     = Inr True"
  by (simp add: run_eval library_without_statevector_def two_bit_counts_def)

text \<open>
  C6, amended. A request whose \<open>hidden_period\<close> holds a character other than
  \<^verbatim>\<open>'0'\<close> and \<^verbatim>\<open>'1'\<close>, or whose \<open>num_qubits\<close> is odd, is rejected: the validation
  raises an \<open>HTTPException\<close> with status 400 before any circuit is built or simulated,
  the handler ends with an error for its caller, nothing is printed and nothing is run
  again. The validation rejects no other request: an empty \<open>hidden_period\<close> and an
  even \<open>num_qubits\<close> below two pass it.
\<close>

theorem validation_rejects_nonbinary_or_odd:
  "(\<not> list_all (\<lambda>bit. bit \<in> set (S ''01'')) (req_hidden_period request)
      \<or> req_num_qubits request mod 2 \<noteq> 0
    \<longrightarrow> (\<exists>detail. run_simon_algorithm_try lib request = ([], Inl (HTTPException 400 detail)))
        \<and> (\<exists>e. run_simon_algorithm lib request = ([], Inl e)))
   \<and> (list_all (\<lambda>bit. bit \<in> set (S ''01'')) (req_hidden_period request)
      \<and> req_num_qubits request mod 2 = 0
    \<longrightarrow> (\<forall>detail. snd (run_simon_algorithm_try lib request) \<noteq> Inl (HTTPException 400 detail)))"
proof (intro conjI impI)
  assume bad: "\<not> list_all (\<lambda>bit. bit \<in> set (S ''01'')) (req_hidden_period request)
      \<or> req_num_qubits request mod 2 \<noteq> 0"
  then show t: "\<exists>detail. run_simon_algorithm_try lib request
                   = ([], Inl (HTTPException 400 detail))"
    by (auto simp: run_simon_algorithm_try_def)
  then show "\<exists>e. run_simon_algorithm lib request = ([], Inl e)"
    by (auto simp: run_simon_algorithm_def)
next
  assume ok: "list_all (\<lambda>bit. bit \<in> set (S ''01'')) (req_hidden_period request)
      \<and> req_num_qubits request mod 2 = 0"
  show "\<forall>detail. snd (run_simon_algorithm_try lib request) \<noteq> Inl (HTTPException 400 detail)"
  proof
    fix detail
    obtain r st where c: "create_simon_circuit (req_hidden_period request)
                            (req_num_qubits request) [] = (r, st)"
      by (cases "create_simon_circuit (req_hidden_period request) (req_num_qubits request) []")
    show "snd (run_simon_algorithm_try lib request) \<noteq> Inl (HTTPException 400 detail)"
    proof (cases r)
      case (Inl e)
      with c have "(\<exists>m. e = ValueError m) \<or> (\<exists>m. e = CircuitError m)"
        by (auto dest: create_simon_circuit_error)
      with ok c Inl show ?thesis
        by (auto simp: run_simon_algorithm_try_def)
    next
      case (Inr circ)
      obtain out res where s: "simulate_simon lib (st ! circ) = (out, res)"
        by (cases "simulate_simon lib (st ! circ)")
      show ?thesis
      proof (cases res)
        case (Inl e)
        with s have "\<exists>m. e = NumpyError m"
          by (auto dest: simulate_simon_error)
        with ok c Inr s Inl show ?thesis
          by (auto simp: run_simon_algorithm_try_def)
      next
        case r: (Inr result)
        with ok c Inr s show ?thesis
          by (simp add: run_simon_algorithm_try_def Let_def split: prod.splits)
      qed
    qed
  qed
qed

theorem validation_rejects_nonbinary_or_odd_witness:
  "\<not> list_all (\<lambda>bit. bit \<in> set (S ''01'')) (S ''12'')
   \<and> run_simon_algorithm_try (library_without_statevector two_bit_counts)
        \<lparr>req_hidden_period = S ''12'', req_num_qubits = 4\<rparr>
       = ([], Inl (HTTPException 400 (S ''Hidden period must contain only 0s and 1s'')))
   \<and> list_all (\<lambda>bit. bit \<in> set (S ''01'')) [] \<and> (0::int) mod 2 = 0
   \<and> snd (run_simon_algorithm_try (library_without_statevector two_bit_counts)
             \<lparr>req_hidden_period = [], req_num_qubits = 0\<rparr>)
       \<noteq> Inl (HTTPException 400 (S ''Hidden period must contain only 0s and 1s''))"
proof -
  have bad: "\<not> list_all (\<lambda>bit. bit \<in> set (S ''01'')) (S ''12'')"
    by (simp add: S_def)
  have ok: "list_all (\<lambda>bit. bit \<in> set (S ''01'')) []" and even: "(0::int) mod 2 = 0"
    by simp_all
  have r: "run_simon_algorithm_try (library_without_statevector two_bit_counts)
        \<lparr>req_hidden_period = S ''12'', req_num_qubits = 4\<rparr>
       = ([], Inl (HTTPException 400 (S ''Hidden period must contain only 0s and 1s'')))"
    using validation_rejects_nonbinary_or_odd
            [of "\<lparr>req_hidden_period = S ''12'', req_num_qubits = 4\<rparr>"
                "library_without_statevector two_bit_counts"] bad
    by (simp add: run_simon_algorithm_try_def S_def)
  have p: "snd (run_simon_algorithm_try (library_without_statevector two_bit_counts)
             \<lparr>req_hidden_period = [], req_num_qubits = 0\<rparr>)
       \<noteq> Inl (HTTPException 400 (S ''Hidden period must contain only 0s and 1s''))"
    using validation_rejects_nonbinary_or_odd
            [of "\<lparr>req_hidden_period = [], req_num_qubits = 0\<rparr>"
                "library_without_statevector two_bit_counts"] ok even
    by simp
  from bad r ok even p show ?thesis by blast
qed

end
